theory Spec2Isabelle
  imports Main "HOL-Library.Sublist" "HOL-Library.Char_ord" "HOL-Library.List_Lexorder"
begin

section \<open>Python string primitives used by the sources\<close>

text \<open>
  Strings are \<^typ>\<open>string\<close>. The functions of this section model the built-in string
  operations the two source files call: the \<^verbatim>\<open>in\<close> test on strings, \<^verbatim>\<open>str.replace\<close>,
  \<^verbatim>\<open>str.strip\<close>, slicing \<^verbatim>\<open>s[:k]\<close> and the \<^verbatim>\<open>%\<close> operator.
\<close>

text \<open>\<^verbatim>\<open>sub in s\<close> on strings: \<^verbatim>\<open>sub\<close> occurs somewhere in \<^verbatim>\<open>s\<close>.\<close>

fun py_in :: "string \<Rightarrow> string \<Rightarrow> bool" where
  "py_in sub [] = (sub = [])"
| "py_in sub (c # cs) = (prefix sub (c # cs) \<or> py_in sub cs)"

text \<open>
  \<^verbatim>\<open>s.replace(old, new)\<close>: the occurrences of \<^verbatim>\<open>old\<close> are found from the left and do not
  overlap. An empty \<^verbatim>\<open>old\<close> matches before every character and at the end.
\<close>

fun py_replace :: "string \<Rightarrow> string \<Rightarrow> string \<Rightarrow> string" where
  "py_replace [] new s = new @ concat (map (\<lambda>c. c # new) s)"
| "py_replace (a # as) new [] = []"
| "py_replace (a # as) new (c # cs) =
     (if prefix (a # as) (c # cs)
      then new @ py_replace (a # as) new (drop (length as) cs)
      else c # py_replace (a # as) new cs)"

text \<open>\<^verbatim>\<open>s.replace(old, new, 1)\<close>: only the leftmost occurrence is replaced.\<close>

fun py_replace1 :: "string \<Rightarrow> string \<Rightarrow> string \<Rightarrow> string" where
  "py_replace1 old new [] = (if old = [] then new else [])"
| "py_replace1 old new (c # cs) =
     (if prefix old (c # cs) then new @ drop (length old) (c # cs)
      else c # py_replace1 old new cs)"

text \<open>\<^verbatim>\<open>s.count(sub)\<close> for a non-empty \<^verbatim>\<open>sub\<close>: the number of non-overlapping occurrences.\<close>

fun py_count :: "string \<Rightarrow> string \<Rightarrow> nat" where
  "py_count [] s = Suc (length s)"
| "py_count (a # as) [] = 0"
| "py_count (a # as) (c # cs) =
     (if prefix (a # as) (c # cs)
      then Suc (py_count (a # as) (drop (length as) cs))
      else py_count (a # as) cs)"

text \<open>\<^verbatim>\<open>s.strip(chars)\<close>: leading and trailing characters of \<^verbatim>\<open>chars\<close> are removed.\<close>

definition py_strip :: "string \<Rightarrow> string \<Rightarrow> string" where
  "py_strip chars s =
     rev (dropWhile (\<lambda>c. c \<in> set chars) (rev (dropWhile (\<lambda>c. c \<in> set chars) s)))"

text \<open>
  \<^verbatim>\<open>s[:k]\<close> for a Python integer \<^verbatim>\<open>k\<close>: a negative \<^verbatim>\<open>k\<close> counts from the end, and the
  slice never raises.
\<close>

definition py_slice_to :: "int \<Rightarrow> 'a list \<Rightarrow> 'a list" where
  "py_slice_to k s = (if k < 0 then take (nat (int (length s) + k)) s else take (nat k) s)"

text \<open>Every exception the modelled code can end with.\<close>

datatype error =
    FailedToCompile string string
  | LacksNamedGroup
  | InvalidFileFormat string
  | InvalidVcs string
  | NeedDoubleWildcard
  | ProjectNotFound string
  | ComponentNotFound string
  | MaskMatchedNoFiles
  | NoneOfLanguagesExists
  | MainComponentNotFound
  | NoSuitableName string
  | FormatNotAllConverted
  | FormatNotEnoughArguments
  | FormatIncomplete
  | FormatUnmodelled char
  | RegexError
  | NoSuchGroup
  | VcsError
  | PopFromEmptyList
  | RenameFailed

text \<open>
  \<^verbatim>\<open>template % arg\<close> with a single string argument. \<^verbatim>\<open>%s\<close> consumes the argument,
  \<^verbatim>\<open>%%\<close> is a percent sign; a second \<^verbatim>\<open>%s\<close> raises (not enough arguments), a template
  that never consumes the argument raises (not all arguments converted), a \<^verbatim>\<open>%\<close> at the
  end raises (incomplete format). Python is the authority for every other conversion
  (flags, widths, \<^verbatim>\<open>%r\<close>, \<^verbatim>\<open>%d\<close> and so on); here they end in \<open>FormatUnmodelled\<close>.
  The flag says whether the argument has been consumed.
\<close>

fun py_percent_from :: "bool \<Rightarrow> string \<Rightarrow> string \<Rightarrow> error + string" where
  "py_percent_from used [] arg = (if used then Inr [] else Inl FormatNotAllConverted)"
| "py_percent_from used [c] arg =
     (if c = CHR ''%'' then Inl FormatIncomplete
      else case py_percent_from used [] arg of Inl e \<Rightarrow> Inl e | Inr r \<Rightarrow> Inr (c # r))"
| "py_percent_from used (c # d # cs) arg =
     (if c = CHR ''%'' then
        (if d = CHR ''%'' then
           (case py_percent_from used cs arg of Inl e \<Rightarrow> Inl e | Inr r \<Rightarrow> Inr (CHR ''%'' # r))
         else if d = CHR ''s'' then
           (if used then Inl FormatNotEnoughArguments
            else case py_percent_from True cs arg of Inl e \<Rightarrow> Inl e | Inr r \<Rightarrow> Inr (arg @ r))
         else Inl (FormatUnmodelled d))
      else case py_percent_from used (d # cs) arg of Inl e \<Rightarrow> Inl e | Inr r \<Rightarrow> Inr (c # r))"

definition py_percent :: "string \<Rightarrow> string \<Rightarrow> error + string" where
  "py_percent template arg = py_percent_from False template arg"

section \<open>The import command: template formatting\<close>

text \<open>
  \<^verbatim>\<open>Command.format_string\<close>: the match is substituted only when the template contains
  \<^verbatim>\<open>%s\<close>; otherwise the template is returned as it is.
\<close>

definition format_string :: "string \<Rightarrow> string \<Rightarrow> error + string" where
  "format_string template match =
     (if py_in ''%s'' template then py_percent template match else Inr template)"

text \<open>
  The component name that \<^verbatim>\<open>handle\<close> and \<^verbatim>\<open>import_initial\<close> derive from a match:
  \<^verbatim>\<open>self.format_string(self.name_template, match)[:name_len]\<close>.
\<close>

definition component_name :: "string \<Rightarrow> int \<Rightarrow> string \<Rightarrow> error + string" where
  "component_name name_template name_len match =
     (case format_string name_template match of
        Inl e \<Rightarrow> Inl e
      | Inr s \<Rightarrow> Inr (py_slice_to name_len s))"

section \<open>The discovery form\<close>

text \<open>
  The cleaned data of \<^verbatim>\<open>DiscoveryForm\<close>: one entry per declared field, and the key
  \<^verbatim>\<open>show_preview\<close>, which only \<^verbatim>\<open>clean\<close> writes (\<open>None\<close> while the key is absent).
\<close>

record cleaned_data =
  cd_match :: string
  cd_file_format :: string
  cd_name_template :: string
  cd_base_file_template :: string
  cd_remove :: bool
  cd_confirm :: bool
  cd_preview :: bool
  cd_show_preview :: "bool option"

datatype validation_error = PleaseConfirm

text \<open>
  \<^verbatim>\<open>DiscoveryForm.clean\<close>. The dictionary is mutated in place, so the data is returned
  also when the validation error is raised (\<^verbatim>\<open>__init__\<close> reads \<^verbatim>\<open>show_preview\<close> whatever the
  outcome of the validation).
\<close>

definition clean :: "cleaned_data \<Rightarrow> validation_error option \<times> cleaned_data" where
  "clean cd =
     (let cd1 = cd\<lparr>cd_show_preview := Some (cd_preview cd)\<rparr> in
      if cd_preview cd1 then
        (if \<not> cd_confirm cd1 then (Some PleaseConfirm, cd1)
         else (None, cd1\<lparr>cd_preview := False, cd_confirm := False\<rparr>))
      else (None, cd1\<lparr>cd_preview := True, cd_confirm := False\<rparr>))"

text \<open>
  The add-on behind a form: the configurations its \<^verbatim>\<open>configure\<close> method (the
  configuration acceptor) has received, latest first.
\<close>

record addon =
  configured :: "cleaned_data list"

text \<open>\<^verbatim>\<open>BaseAddonForm.save\<close>: hands the cleaned data to the acceptor.\<close>

definition save :: "addon \<Rightarrow> cleaned_data \<Rightarrow> addon" where
  "save a cd = a\<lparr>configured := cd # configured a\<rparr>"

text \<open>
  Modelled from the spec: the request handler that receives a submitted form is not among
  the sources. The specification says of it: "On successful validation, the handler always
  delegates to an external configuration-acceptor." A submission is therefore validated,
  and saved exactly when the validation raised no error.
\<close>

definition submit :: "addon \<Rightarrow> cleaned_data \<Rightarrow> validation_error option \<times> cleaned_data \<times> addon" where
  "submit a cd =
     (case clean cd of
        (Some e, cd') \<Rightarrow> (Some e, cd', a)
      | (None, cd') \<Rightarrow> (None, cd', save a cd'))"

section \<open>The pattern translator\<close>

abbreviation BSL :: char where
  "BSL \<equiv> CHR 0x5C"

text \<open>
  \<^verbatim>\<open>re.escape\<close> on one character, as in the Python 2.7 line of the interpreter that this
  code base is written for: every character that is not an ASCII letter or digit gets a
  backslash, the NUL character becomes \<^verbatim>\<open>\000\<close>.
\<close>

definition is_alnum :: "char \<Rightarrow> bool" where
  "is_alnum c \<longleftrightarrow>
     c \<in> set ''abcdefghijklmnopqrstuvwxyzABCDEFGHIJKLMNOPQRSTUVWXYZ0123456789''"

definition re_escape :: "char \<Rightarrow> string" where
  "re_escape c =
     (if is_alnum c then [c]
      else if c = CHR 0x00 then BSL # ''000''
      else [BSL, c])"

text \<open>
  \<^verbatim>\<open>fnmatch.translate\<close> (Python 2.7). After an opening bracket the scan skips a leading
  \<^verbatim>\<open>!\<close> and a leading \<^verbatim>\<open>]\<close> and looks for the closing bracket; \<open>bracket_end\<close> is its
  offset in the text after the opening bracket, \<open>None\<close> when the bracket is never closed.
\<close>

fun find_close :: "nat \<Rightarrow> string \<Rightarrow> nat option" where
  "find_close j [] = None"
| "find_close j (c # cs) = (if c = CHR '']'' then Some j else find_close (Suc j) cs)"

definition bracket_end :: "string \<Rightarrow> nat option" where
  "bracket_end cs =
     (let j0 = (if cs \<noteq> [] \<and> hd cs = CHR ''!'' then 1 else 0);
          j1 = (if j0 < length cs \<and> cs ! j0 = CHR '']'' then Suc j0 else j0)
      in find_close j1 (drop j1 cs))"

definition bracket_stuff :: "string \<Rightarrow> string" where
  "bracket_stuff raw =
     (let stuff = py_replace [BSL] [BSL, BSL] raw in
      if stuff \<noteq> [] \<and> hd stuff = CHR ''!'' then CHR ''^'' # tl stuff
      else if stuff \<noteq> [] \<and> hd stuff = CHR ''^'' then BSL # stuff
      else stuff)"

function translate_from :: "string \<Rightarrow> string" where
  "translate_from [] = []"
| "translate_from (c # cs) =
     (if c = CHR ''*'' then ''.*'' @ translate_from cs
      else if c = CHR ''?'' then ''.'' @ translate_from cs
      else if c = CHR ''['' then
        (case bracket_end cs of
           None \<Rightarrow> [BSL, CHR ''[''] @ translate_from cs
         | Some j \<Rightarrow> ''['' @ bracket_stuff (take j cs) @ '']'' @ translate_from (drop (Suc j) cs))
      else re_escape c @ translate_from cs)"
  by pat_completeness auto
termination
  by (relation "measure length") auto

definition translate :: "string \<Rightarrow> string" where
  "translate pat = translate_from pat @ BSL # ''Z(?ms)''"

text \<open>
  The regular expression text that the property \<^verbatim>\<open>match_regexp\<close> builds from the file
  mask when no custom expression was given: the four \<^verbatim>\<open>replace\<close> calls of the source, in
  their order.
\<close>

definition mask_regexp_source :: "string \<Rightarrow> string" where
  "mask_regexp_source filemask =
     (let match0 = translate filemask;
          match1 = py_replace ''.*.*'' ''(?P<name>[[WILDCARD]])'' match0;
          match2 = py_replace1 ''.*'' ''(?P<language>[[WILDCARD]])'' match1;
          match3 = py_replace ''.*'' ''(?P=language)'' match2
      in py_replace ''[[WILDCARD]]'' ''.*'' match3)"


subsection \<open>The regular expressions that masks generate\<close>

text \<open>
  Python's \<^verbatim>\<open>re\<close> module on the expressions that \<open>mask_regexp_source\<close> produces from a
  mask without bracket expressions: a sequence of literal characters, \<^verbatim>\<open>.\<close>, the two
  named groups around \<^verbatim>\<open>.*\<close>, and back-references to the language group, closed by
  \<^verbatim>\<open>\Z(?ms)\<close>. Under the \<^verbatim>\<open>s\<close> flag \<^verbatim>\<open>.\<close> matches every character.
\<close>

datatype rx_item = RLit char | RAny | RName | RLang | RLangRef

definition is_special :: "char \<Rightarrow> bool" where
  "is_special c \<longleftrightarrow> c \<in> set ''.^$*+?{}[]|()'' \<or> c = BSL"

text \<open>
  Reading the expression text. \<open>None\<close> stands for text outside this fragment (a
  repetition operator after an item, a bracket expression, any other group), which the
  model does not interpret.
\<close>

definition quantified :: "string \<Rightarrow> bool" where
  "quantified s \<longleftrightarrow> s \<noteq> [] \<and> hd s \<in> set ''*+?{''"

definition rx_item_then :: "rx_item \<Rightarrow> string \<Rightarrow> rx_item list option \<Rightarrow> rx_item list option" where
  "rx_item_then x rest parsed = (if quantified rest then None else map_option (Cons x) parsed)"

function re_parse :: "string \<Rightarrow> rx_item list option" where
  "re_parse s =
     (if s = BSL # ''Z(?ms)'' then Some []
      else if prefix ''(?P<name>.*)'' s then
        rx_item_then RName (drop 12 s) (re_parse (drop 12 s))
      else if prefix ''(?P<language>.*)'' s then
        rx_item_then RLang (drop 16 s) (re_parse (drop 16 s))
      else if prefix ''(?P=language)'' s then
        rx_item_then RLangRef (drop 13 s) (re_parse (drop 13 s))
      else case s of
        [] \<Rightarrow> None
      | c # cs \<Rightarrow>
         (if c = CHR ''.'' then rx_item_then RAny cs (re_parse cs)
          else if c = BSL then
            (case cs of
               [] \<Rightarrow> None
             | d # ds \<Rightarrow>
                 if prefix ''000'' cs then
                   rx_item_then (RLit (CHR 0x00)) (drop 3 cs) (re_parse (drop 3 cs))
                 else if is_alnum d then None
                 else rx_item_then (RLit d) ds (re_parse ds))
          else if is_special c then None
          else rx_item_then (RLit c) cs (re_parse cs)))"
  by pat_completeness auto
termination
  by (relation "measure length") (auto simp: prefix_def)

text \<open>
  What \<^verbatim>\<open>re.compile\<close> checks on such a sequence: a group name is defined once, and a
  back-reference follows the definition of its group.
\<close>

fun groups_ok :: "bool \<Rightarrow> bool \<Rightarrow> rx_item list \<Rightarrow> bool" where
  "groups_ok n l [] = True"
| "groups_ok n l (RName # r) = (\<not> n \<and> groups_ok True l r)"
| "groups_ok n l (RLang # r) = (\<not> l \<and> groups_ok n True r)"
| "groups_ok n l (RLangRef # r) = (l \<and> groups_ok n l r)"
| "groups_ok n l (x # r) = groups_ok n l r"

definition rx_groupindex :: "rx_item list \<Rightarrow> string list" where
  "rx_groupindex items =
     (if RName \<in> set items then [''name''] else []) @
     (if RLang \<in> set items then [''language''] else [])"

text \<open>
  Matching is backtracking with greedy repetition: a group first takes as many characters
  as there are and gives them back one at a time; the first complete match wins.
\<close>

fun first_down :: "(nat \<Rightarrow> 'a option) \<Rightarrow> nat \<Rightarrow> 'a option" where
  "first_down f 0 = f 0"
| "first_down f (Suc k) = (case f (Suc k) of Some r \<Rightarrow> Some r | None \<Rightarrow> first_down f k)"

primrec rx_run ::
  "rx_item list \<Rightarrow> string option \<Rightarrow> string option \<Rightarrow> string \<Rightarrow> (string option \<times> string option) option"
where
  "rx_run [] = (\<lambda>n l s. if s = [] then Some (n, l) else None)"
| "rx_run (x # r) = (\<lambda>n l s.
     case x of
       RLit c \<Rightarrow> (case s of [] \<Rightarrow> None | y # ys \<Rightarrow> if y = c then rx_run r n l ys else None)
     | RAny \<Rightarrow> (case s of [] \<Rightarrow> None | y # ys \<Rightarrow> rx_run r n l ys)
     | RName \<Rightarrow> first_down (\<lambda>k. rx_run r (Some (take k s)) l (drop k s)) (length s)
     | RLang \<Rightarrow> first_down (\<lambda>k. rx_run r n (Some (take k s)) (drop k s)) (length s)
     | RLangRef \<Rightarrow>
         (case l of
            None \<Rightarrow> None
          | Some t \<Rightarrow> if prefix t s then rx_run r n l (drop (length t) s) else None))"

section \<open>Masks read item by item\<close>

text \<open>
  The items that a mask without bracket expressions stands for, read from the left: two
  adjacent stars are the name, a single star is the language (a back-reference once the
  language has been seen), a question mark is any character, every other character is
  itself. The flag says whether the language has been seen.
\<close>

definition mask_single :: "bool \<Rightarrow> char \<Rightarrow> rx_item" where
  "mask_single seen c =
     (if c = CHR ''*'' then (if seen then RLangRef else RLang)
      else if c = CHR ''?'' then RAny
      else RLit c)"

fun mask_items :: "bool \<Rightarrow> string \<Rightarrow> rx_item list" where
  "mask_items seen [] = []"
| "mask_items seen [c] = [mask_single seen c]"
| "mask_items seen (c # d # cs) =
     (if c = CHR ''*'' \<and> d = CHR ''*'' then RName # mask_items seen cs
      else mask_single seen c # mask_items (seen \<or> c = CHR ''*'') (d # cs))"




fun fits :: "rx_item list \<Rightarrow> string \<Rightarrow> string \<Rightarrow> string \<Rightarrow> bool" where
  "fits [] n l s = (s = [])"
| "fits (RLit c # r) n l s = (case s of [] \<Rightarrow> False | y # ys \<Rightarrow> y = c \<and> fits r n l ys)"
| "fits (RAny # r) n l s = (case s of [] \<Rightarrow> False | y # ys \<Rightarrow> fits r n l ys)"
| "fits (RName # r) n l s = (prefix n s \<and> fits r n l (drop (length n) s))"
| "fits (RLang # r) n l s = (prefix l s \<and> fits r n l (drop (length l) s))"
| "fits (RLangRef # r) n l s = (prefix l s \<and> fits r n l (drop (length l) s))"





text \<open>
  The first character of what follows an item in the text of an expression: an opening
  parenthesis, a dot, a backslash, a letter or a digit.
\<close>

definition head_ok :: "string \<Rightarrow> bool" where
  "head_ok s \<longleftrightarrow> (\<exists>h t. s = h # t \<and> (h = CHR ''('' \<or> h = CHR ''.'' \<or> h = BSL \<or> is_alnum h))"


section \<open>The import command: data model\<close>

text \<open>The rows of the \<^verbatim>\<open>Project\<close> table that the command reads.\<close>

record project =
  p_slug :: string
  p_full_path :: string

text \<open>
  A row of the \<^verbatim>\<open>SubProject\<close> table, with the fields that the two \<^verbatim>\<open>create\<close> calls
  pass. The three optional attributes are passed only when they are set, and \<^verbatim>\<open>push\<close>
  only for the main component (\<open>None\<close>: the argument is not passed).
\<close>

record subproject =
  sp_name :: string
  sp_slug :: string
  sp_project :: string
  sp_repo :: string
  sp_push :: "string option"
  sp_branch :: string
  sp_template :: string
  sp_filemask :: string
  sp_file_format :: string
  sp_vcs :: string
  sp_push_on_commit :: bool
  sp_license :: "string option"
  sp_license_url :: "string option"
  sp_language_regex :: "string option"

text \<open>The parsed command line, with the defaults of \<^verbatim>\<open>add_arguments\<close> filled in by the caller.\<close>

record options =
  o_name_template :: string
  o_component_regexp :: "string option"
  o_base_file_template :: string
  o_file_format :: string
  o_language_regex :: "string option"
  o_duplicates :: bool
  o_license :: "string option"
  o_license_url :: "string option"
  o_vcs :: string
  o_push_url :: string
  o_push_url_same :: bool
  o_push_on_commit :: bool
  o_main_component :: "string option"
  o_project :: string
  o_repo :: string
  o_branch :: string
  o_filemask :: string

text \<open>
  A compiled regular expression: the names of its groups, and \<^verbatim>\<open>match\<close>, which gives for
  a matching path the text of each group (\<open>None\<close> for a group that took no part).
\<close>

record regexp =
  groupindex :: "string list"
  rmatch :: "string \<Rightarrow> (string \<Rightarrow> string option) option"

text \<open>
  The attributes of the command object that \<^verbatim>\<open>parse_options\<close> sets. The cache
  \<^verbatim>\<open>_mask_regexp\<close> is not modelled: the expression is derived from the mask at each use,
  with the same result.
\<close>

record command =
  filemask :: string
  component_re :: "regexp option"
  file_format :: string
  language_regex :: "string option"
  license :: "string option"
  license_url :: "string option"
  main_component :: "string option"
  name_template :: string
  base_file_template :: string
  vcs :: string
  push_url :: string
  push_on_commit :: bool

text \<open>
  What the command takes from outside its own file: the registries and tables it reads,
  the field lengths of the component model, and the library functions it calls
  (\<^verbatim>\<open>re.compile\<close> with and without the flags of the custom expression, Django's
  \<^verbatim>\<open>slugify\<close>, \<^verbatim>\<open>is_repo_link\<close>, \<^verbatim>\<open>get_linked\<close> giving the checkout path of the linked
  component, \<^verbatim>\<open>glob\<close> on the checkout, \<^verbatim>\<open>path_separator\<close>, \<^verbatim>\<open>mkdtemp\<close>, whether
  cloning and configuring the branch succeed, and whether the file system carries out a
  rename that nothing in the model rules out).
\<close>

record env =
  e_file_formats :: "string list"
  e_vcs_registry :: "string list"
  e_projects :: "project list"
  e_languages :: "string list"
  e_slug_len :: int
  e_name_len :: int
  e_re_compile :: "bool \<Rightarrow> string \<Rightarrow> string + regexp"
  e_slugify :: "string \<Rightarrow> string"
  e_is_repo_link :: "string \<Rightarrow> bool"
  e_get_linked :: "subproject list \<Rightarrow> string \<Rightarrow> string option"
  e_glob :: "string \<Rightarrow> string list"
  e_path_separator :: "string \<Rightarrow> string"
  e_mkdtemp :: "string \<Rightarrow> string"
  e_clone_ok :: "string \<Rightarrow> string \<Rightarrow> bool"
  e_branch_ok :: "string \<Rightarrow> bool"
  e_rename_ok :: "string \<Rightarrow> string \<Rightarrow> bool"

text \<open>The lines the command logs.\<close>

datatype event =
    WarnSkipping string
  | WarnExistsSkipping string
  | WarnExistsUsingAsMain string
  | InfoCloning
  | InfoUpdating
  | InfoFoundFiles nat
  | InfoFoundSubprojects nat
  | InfoFoundLanguages nat
  | InfoCreating string
  | InfoCreatingMain string

text \<open>
  What the command changes: the component table, the directories below the project
  directories, and the log (latest line first).
\<close>

record world =
  w_subprojects :: "subproject list"
  w_dirs :: "string list"
  w_log :: "event list"

definition log_event :: "event \<Rightarrow> world \<Rightarrow> world" where
  "log_event ev w = w\<lparr>w_log := ev # w_log w\<rparr>"

text \<open>\<^verbatim>\<open>os.path.join\<close> of two parts.\<close>

definition path_join :: "string \<Rightarrow> string \<Rightarrow> string" where
  "path_join a b =
     (if b \<noteq> [] \<and> hd b = CHR ''/'' then b
      else if a = [] \<or> last a = CHR ''/'' then a @ b
      else a @ ''/'' @ b)"

section \<open>The import command: operations\<close>

text \<open>\<^verbatim>\<open>Command.parse_options\<close>. An empty \<^verbatim>\<open>--component-regexp\<close> is false in the test of
  the source and is treated like no expression.\<close>

definition parse_component_regexp :: "env \<Rightarrow> string option \<Rightarrow> error + regexp option" where
  "parse_component_regexp en r =
     (case r of
        None \<Rightarrow> Inr None
      | Some text \<Rightarrow>
          if text = [] then Inr None
          else (case e_re_compile en True text of
                  Inl msg \<Rightarrow> Inl (FailedToCompile text msg)
                | Inr rx \<Rightarrow>
                    if ''name'' \<notin> set (groupindex rx) \<or> ''language'' \<notin> set (groupindex rx)
                    then Inl LacksNamedGroup
                    else Inr (Some rx)))"

definition parse_options :: "env \<Rightarrow> string \<Rightarrow> options \<Rightarrow> error + command" where
  "parse_options en repo opts =
     (case parse_component_regexp en (o_component_regexp opts) of
        Inl e \<Rightarrow> Inl e
      | Inr cre \<Rightarrow>
          if o_file_format opts \<notin> set (e_file_formats en) then
            Inl (InvalidFileFormat (o_file_format opts))
          else if o_vcs opts \<notin> set (e_vcs_registry en) then
            Inl (InvalidVcs (o_vcs opts))
          else if \<not> py_in ''**'' (o_filemask opts)
                  \<or> \<not> py_in ''*'' (py_replace ''**'' [] (o_filemask opts)) then
            Inl NeedDoubleWildcard
          else Inr \<lparr>
            filemask = o_filemask opts,
            component_re = cre,
            file_format = o_file_format opts,
            language_regex = o_language_regex opts,
            license = o_license opts,
            license_url = o_license_url opts,
            main_component = o_main_component opts,
            name_template = o_name_template opts,
            base_file_template = o_base_file_template opts,
            vcs = o_vcs opts,
            push_url = (if o_push_url_same opts then repo else o_push_url opts),
            push_on_commit = o_push_on_commit opts\<rparr>)"

text \<open>The property \<^verbatim>\<open>match_regexp\<close>: the custom expression, or the one made from the mask.
  An error of \<^verbatim>\<open>re.compile\<close> is not caught here.\<close>

definition match_regexp :: "env \<Rightarrow> command \<Rightarrow> error + regexp" where
  "match_regexp en cmd =
     (case component_re cmd of
        Some rx \<Rightarrow> Inr rx
      | None \<Rightarrow>
          (case e_re_compile en False (mask_regexp_source (filemask cmd)) of
             Inl msg \<Rightarrow> Inl RegexError
           | Inr rx \<Rightarrow> Inr rx))"

text \<open>\<^verbatim>\<open>Command.get_name\<close>. \<^verbatim>\<open>matches.group\<close> raises for a name that the expression does
  not define.\<close>

definition get_name ::
  "env \<Rightarrow> command \<Rightarrow> string \<Rightarrow> world \<Rightarrow> (error + string option \<times> string option) \<times> world" where
  "get_name en cmd path w =
     (case match_regexp en cmd of
        Inl e \<Rightarrow> (Inl e, w)
      | Inr rx \<Rightarrow>
          (case rmatch rx path of
             None \<Rightarrow> (Inr (None, None), log_event (WarnSkipping path) w)
           | Some g \<Rightarrow>
               if ''name'' \<in> set (groupindex rx) \<and> ''language'' \<in> set (groupindex rx)
               then (Inr (g ''name'', g ''language''), w)
               else (Inl NoSuchGroup, w)))"

text \<open>\<^verbatim>\<open>Command.get_matching_files\<close>.\<close>

definition get_matching_files :: "env \<Rightarrow> command \<Rightarrow> string \<Rightarrow> string list" where
  "get_matching_files en cmd repo =
     map (\<lambda>f. py_strip ''/'' (e_path_separator en (py_replace repo [] f)))
       (e_glob en (path_join repo (filemask cmd)))"

text \<open>
  The loop of \<^verbatim>\<open>get_matching_subprojects\<close> over the matched files. The two sets are kept
  as lists without repetition; a name that is \<^verbatim>\<open>None\<close> or empty is false in the test
  \<^verbatim>\<open>if name\<close>.
\<close>

fun scan_matches ::
  "env \<Rightarrow> command \<Rightarrow> string list \<Rightarrow> string list \<Rightarrow> string option list \<Rightarrow> world
     \<Rightarrow> (error + string list \<times> string option list) \<times> world" where
  "scan_matches en cmd [] names langs w = (Inr (names, langs), w)"
| "scan_matches en cmd (m # ms) names langs w =
     (case get_name en cmd m w of
        (Inl e, w') \<Rightarrow> (Inl e, w')
      | (Inr (name, lang), w') \<Rightarrow>
          (case name of
             None \<Rightarrow> scan_matches en cmd ms names langs w'
           | Some n \<Rightarrow>
               if n = [] then scan_matches en cmd ms names langs w'
               else scan_matches en cmd ms (List.insert n names) (List.insert lang langs) w'))"

text \<open>\<^verbatim>\<open>Command.get_matching_subprojects\<close>: first the part after the files are listed,
  then the function.\<close>

definition subprojects_of_matches ::
  "env \<Rightarrow> command \<Rightarrow> string list \<Rightarrow> world \<Rightarrow> (error + string list) \<times> world" where
  "subprojects_of_matches en cmd matches w =
     (let w1 = log_event (InfoFoundFiles (length matches)) w
      in if matches = [] then (Inl MaskMatchedNoFiles, w1)
         else (case scan_matches en cmd matches [] [] w1 of
                 (Inl e, w2) \<Rightarrow> (Inl e, w2)
               | (Inr (names, langs), w2) \<Rightarrow>
                   (let w3 = log_event (InfoFoundLanguages (length langs))
                               (log_event (InfoFoundSubprojects (length names)) w2)
                    in if filter (\<lambda>code. Some code \<in> set langs) (e_languages en) = []
                       then (Inl NoneOfLanguagesExists, w3)
                       else (Inr (sort names), w3))))"

definition get_matching_subprojects ::
  "env \<Rightarrow> command \<Rightarrow> string \<Rightarrow> world \<Rightarrow> (error + string list) \<times> world" where
  "get_matching_subprojects en cmd repo w =
     subprojects_of_matches en cmd (get_matching_files en cmd repo) w"

text \<open>
  \<^verbatim>\<open>SubProject.objects.filter(Q(name=name) | Q(slug=slug), project=project).exists()\<close>.
\<close>

definition name_or_slug_exists :: "subproject list \<Rightarrow> string \<Rightarrow> string \<Rightarrow> string \<Rightarrow> bool" where
  "name_or_slug_exists sps proj name slug \<longleftrightarrow>
     (\<exists>sp \<in> set sps. sp_project sp = proj \<and> (sp_name sp = name \<or> sp_slug sp = slug))"

text \<open>\<^verbatim>\<open>'{0} {1:03d}'.format(base, i)\<close>.\<close>

definition digit_char :: "nat \<Rightarrow> char" where
  "digit_char d = ''0123456789'' ! d"

fun decimal :: "nat \<Rightarrow> string" where
  "decimal n =
     (if n < 10 then [digit_char n]
      else decimal (n div 10) @ [digit_char (n mod 10)])"

declare decimal.simps [simp del]

definition numbered_name :: "string \<Rightarrow> nat \<Rightarrow> string" where
  "numbered_name base i =
     base @ '' '' @ replicate (3 - length (decimal i)) (CHR ''0'') @ decimal i"

text \<open>\<^verbatim>\<open>Command.find_usable_slug\<close>: the loop over the candidate numbers, then the function.\<close>

fun probe_names ::
  "env \<Rightarrow> subproject list \<Rightarrow> string \<Rightarrow> string \<Rightarrow> nat list \<Rightarrow> (string \<times> string) option" where
  "probe_names en sps proj base [] = None"
| "probe_names en sps proj base (i # is) =
     (let newname = numbered_name base i; slug = e_slugify en newname
      in if \<not> name_or_slug_exists sps proj newname slug then Some (newname, slug)
         else probe_names en sps proj base is)"

definition find_usable_slug ::
  "env \<Rightarrow> subproject list \<Rightarrow> string \<Rightarrow> int \<Rightarrow> string \<Rightarrow> error + string \<times> string" where
  "find_usable_slug en sps name slug_len proj =
     (case probe_names en sps proj (py_slice_to (slug_len - 4) name) [1..<1000] of
        None \<Rightarrow> Inl (NoSuitableName name)
      | Some r \<Rightarrow> Inr r)"

text \<open>A candidate number is free when neither its name nor its slug is taken in the project.\<close>

definition candidate_free :: "env \<Rightarrow> subproject list \<Rightarrow> string \<Rightarrow> string \<Rightarrow> nat \<Rightarrow> bool" where
  "candidate_free en sps proj base i \<longleftrightarrow>
     \<not> name_or_slug_exists sps proj (numbered_name base i) (e_slugify en (numbered_name base i))"

text \<open>\<^verbatim>\<open>Command.get_project_attribs\<close> and the two \<^verbatim>\<open>create\<close> calls build these rows.\<close>

definition new_subproject ::
  "command \<Rightarrow> string \<Rightarrow> string \<Rightarrow> string \<Rightarrow> string \<Rightarrow> string option \<Rightarrow> string \<Rightarrow> string \<Rightarrow> string
     \<Rightarrow> subproject" where
  "new_subproject cmd name slug proj repo push branch template match = \<lparr>
     sp_name = name,
     sp_slug = slug,
     sp_project = proj,
     sp_repo = repo,
     sp_push = push,
     sp_branch = branch,
     sp_template = template,
     sp_filemask = py_replace ''**'' match (filemask cmd),
     sp_file_format = file_format cmd,
     sp_vcs = vcs cmd,
     sp_push_on_commit = push_on_commit cmd,
     sp_license = license cmd,
     sp_license_url = license_url cmd,
     sp_language_regex = language_regex cmd\<rparr>"

definition create_subproject :: "subproject \<Rightarrow> world \<Rightarrow> world" where
  "create_subproject sp w = w\<lparr>w_subprojects := w_subprojects w @ [sp]\<rparr>"

text \<open>
  One round of the loop of \<^verbatim>\<open>handle\<close> that creates the components sharing the
  repository; \<open>None\<close> is the normal end of the round (also after \<^verbatim>\<open>continue\<close>).
\<close>

definition create_component ::
  "env \<Rightarrow> command \<Rightarrow> bool \<Rightarrow> project \<Rightarrow> string \<Rightarrow> string \<Rightarrow> string \<Rightarrow> world
     \<Rightarrow> error option \<times> world" where
  "create_component en cmd duplicates proj sharedrepo branch match w =
     (case format_string (name_template cmd) match of
        Inl e \<Rightarrow> (Some e, w)
      | Inr formatted \<Rightarrow>
     (case format_string (base_file_template cmd) match of
        Inl e \<Rightarrow> (Some e, w)
      | Inr template \<Rightarrow>
     (let name = py_slice_to (e_name_len en) formatted;
          slug = py_slice_to (e_slug_len en) (e_slugify en name)
      in if name_or_slug_exists (w_subprojects w) (p_slug proj) name slug then
           (if \<not> duplicates then (None, log_event (WarnExistsSkipping name) w)
            else (case find_usable_slug en (w_subprojects w) name (e_slug_len en) (p_slug proj) of
                    Inl e \<Rightarrow> (Some e, w)
                  | Inr (name', slug') \<Rightarrow>
                      (None, create_subproject
                         (new_subproject cmd name' slug' (p_slug proj) sharedrepo None branch
                            template match)
                         (log_event (InfoCreating name') w))))
         else (None, create_subproject
                 (new_subproject cmd name slug (p_slug proj) sharedrepo None branch
                    template match)
                 (log_event (InfoCreating name) w)))))"

fun create_remaining ::
  "env \<Rightarrow> command \<Rightarrow> bool \<Rightarrow> project \<Rightarrow> string \<Rightarrow> string \<Rightarrow> string list \<Rightarrow> world
     \<Rightarrow> error option \<times> world" where
  "create_remaining en cmd duplicates proj sharedrepo branch [] w = (None, w)"
| "create_remaining en cmd duplicates proj sharedrepo branch (m # ms) w =
     (case create_component en cmd duplicates proj sharedrepo branch m w of
        (Some e, w') \<Rightarrow> (Some e, w')
      | (None, w') \<Rightarrow> create_remaining en cmd duplicates proj sharedrepo branch ms w')"

text \<open>\<^verbatim>\<open>Command.checkout_tmp\<close>: the directory exists from \<^verbatim>\<open>mkdtemp\<close> on, whatever the
  version control system does afterwards.\<close>

definition checkout_tmp ::
  "env \<Rightarrow> command \<Rightarrow> project \<Rightarrow> string \<Rightarrow> string \<Rightarrow> world \<Rightarrow> (error + string) \<times> world" where
  "checkout_tmp en cmd proj repo branch w =
     (let workdir = e_mkdtemp en (p_full_path proj);
          w1 = log_event InfoCloning (w\<lparr>w_dirs := workdir # w_dirs w\<rparr>)
      in if \<not> e_clone_ok en (vcs cmd) repo then (Inl VcsError, w1)
         else (let w2 = log_event InfoUpdating w1
               in if \<not> e_branch_ok en branch then (Inl VcsError, w2)
                  else (Inr workdir, w2)))"

definition repo_link :: "string \<Rightarrow> string \<Rightarrow> string" where
  "repo_link proj_slug slug = ''weblate://'' @ proj_slug @ ''/'' @ slug"

text \<open>
  The choice of the main component in \<^verbatim>\<open>import_initial\<close>: the named one, removed from
  the list, or else \<^verbatim>\<open>matches.pop()\<close>, which takes the last element of the list.
\<close>

definition pick_main :: "string option \<Rightarrow> string list \<Rightarrow> error + string \<times> string list" where
  "pick_main main matches =
     (case main of
        Some m \<Rightarrow>
          if m = [] then
            (if matches = [] then Inl PopFromEmptyList else Inr (last matches, butlast matches))
          else if m \<notin> set matches then Inl MainComponentNotFound
          else Inr (m, remove1 m matches)
      | None \<Rightarrow>
          if matches = [] then Inl PopFromEmptyList else Inr (last matches, butlast matches))"

text \<open>
  \<^verbatim>\<open>os.rename(workdir, os.path.join(project.full_path, slug))\<close> raises \<^verbatim>\<open>OSError\<close> when
  the slug is empty (the target is then the project directory itself, which holds the
  temporary checkout) and when the target is another directory that exists (the
  directories of the model are checkouts, never empty). Otherwise the environment says
  whether the file system carries it out.
\<close>

definition rename_refused :: "env \<Rightarrow> string list \<Rightarrow> string \<Rightarrow> string \<Rightarrow> string \<Rightarrow> bool" where
  "rename_refused en dirs src slug dst \<longleftrightarrow>
     slug = [] \<or> (dst \<in> set dirs \<and> dst \<noteq> src) \<or> \<not> e_rename_ok en src dst"

text \<open>\<^verbatim>\<open>Command.import_initial\<close>. The error of the rename is not caught: the command
  ends there, after the log line, with no record created and the temporary checkout in
  its place.\<close>

definition import_initial ::
  "env \<Rightarrow> command \<Rightarrow> project \<Rightarrow> string \<Rightarrow> string \<Rightarrow> world
     \<Rightarrow> (error + string list \<times> string) \<times> world" where
  "import_initial en cmd proj repo branch w =
     (case checkout_tmp en cmd proj repo branch w of
        (Inl e, w1) \<Rightarrow> (Inl e, w1)
      | (Inr workdir, w1) \<Rightarrow>
     (case get_matching_subprojects en cmd workdir w1 of
        (Inl e, w2) \<Rightarrow> (Inl e, w2)
      | (Inr matches, w2) \<Rightarrow>
     (case pick_main (main_component cmd) matches of
        Inl e \<Rightarrow> (Inl e, w2)
      | Inr (match, rest) \<Rightarrow>
     (case format_string (name_template cmd) match of
        Inl e \<Rightarrow> (Inl e, w2)
      | Inr formatted \<Rightarrow>
     (case format_string (base_file_template cmd) match of
        Inl e \<Rightarrow> (Inl e, w2)
      | Inr template \<Rightarrow>
     (let name = py_slice_to (e_name_len en) formatted;
          slug = py_slice_to (e_slug_len en) (e_slugify en name)
      in if \<exists>sp \<in> set (w_subprojects w2). sp_project sp = p_slug proj \<and> sp_slug sp = slug then
           (let w3 = log_event (WarnExistsUsingAsMain name) w2
            in (Inr (rest, repo_link (p_slug proj) slug),
                w3\<lparr>w_dirs := removeAll workdir (w_dirs w3)\<rparr>))
         else
           (let w3 = log_event (InfoCreatingMain name) w2;
                target = path_join (p_full_path proj) slug
            in if rename_refused en (w_dirs w3) workdir slug target then (Inl RenameFailed, w3)
               else
                 (let w4 = w3\<lparr>w_dirs := target # removeAll workdir (w_dirs w3)\<rparr>
                  in (Inr (rest, repo_link (p_slug proj) slug),
                      create_subproject
                        (new_subproject cmd name slug (p_slug proj) repo (Some (push_url cmd))
                           branch template match)
                        w4)))))))))"

text \<open>\<^verbatim>\<open>Command.handle\<close>; \<open>None\<close> is the normal end of the command.\<close>

definition handle :: "env \<Rightarrow> options \<Rightarrow> world \<Rightarrow> error option \<times> world" where
  "handle en opts w =
     (let repo = o_repo opts; branch = o_branch opts in
      case parse_options en repo opts of
        Inl e \<Rightarrow> (Some e, w)
      | Inr cmd \<Rightarrow>
     (case find (\<lambda>p. p_slug p = o_project opts) (e_projects en) of
        None \<Rightarrow> (Some (ProjectNotFound (o_project opts)), w)
      | Some proj \<Rightarrow>
     (case (if e_is_repo_link en repo then
              (case e_get_linked en (w_subprojects w) repo of
                 None \<Rightarrow> (Inl (ComponentNotFound repo), w)
               | Some linked_path \<Rightarrow>
                   (case get_matching_subprojects en cmd linked_path w of
                      (Inl e, w1) \<Rightarrow> (Inl e, w1)
                    | (Inr matches, w1) \<Rightarrow> (Inr (matches, repo), w1)))
            else import_initial en cmd proj repo branch w) of
        (Inl e, w1) \<Rightarrow> (Some e, w1)
      | (Inr (matches, sharedrepo), w1) \<Rightarrow>
          create_remaining en cmd (o_duplicates opts) proj sharedrepo branch matches w1)))"

section \<open>A concrete environment\<close>

text \<open>
  An instance of the environment on which the operations can be run: the compiler of
  regular expressions is the model of the previous sections (and the empty expression,
  which has no group and matches at the start of every path; text outside the fragment is
  an error of this instance, whatever Python makes of it), \<^verbatim>\<open>slugify\<close> is Django's
  function on ASCII text (characters other than letters, digits, underscores, hyphens and
  white space are dropped, the ends are stripped, letters are lowered, runs of hyphens and
  white space become one hyphen).
\<close>

definition model_regexp :: "rx_item list \<Rightarrow> regexp" where
  "model_regexp items = \<lparr>
     groupindex = rx_groupindex items,
     rmatch = (\<lambda>path.
       case rx_run items None None path of
         None \<Rightarrow> None
       | Some (n, l) \<Rightarrow>
           Some (\<lambda>g. if g = ''name'' then n else if g = ''language'' then l else None))\<rparr>"

definition model_re_compile :: "bool \<Rightarrow> string \<Rightarrow> string + regexp" where
  "model_re_compile flags text =
     (if text = [] then Inr \<lparr>groupindex = [], rmatch = (\<lambda>path. Some (\<lambda>g. None))\<rparr>
      else case re_parse text of
        None \<Rightarrow> Inl ''outside the modelled fragment''
      | Some items \<Rightarrow>
          if groups_ok False False items then Inr (model_regexp items)
          else Inl ''bad group name'')"

definition is_space :: "char \<Rightarrow> bool" where
  "is_space c \<longleftrightarrow> c \<in> {CHR '' '', CHR 0x09, CHR 0x0A, CHR 0x0B, CHR 0x0C, CHR 0x0D}"

definition lower_char :: "char \<Rightarrow> char" where
  "lower_char c =
     (if CHR ''A'' \<le> c \<and> c \<le> CHR ''Z'' then char_of (of_char c + (32::nat)) else c)"

fun hyphenate :: "bool \<Rightarrow> string \<Rightarrow> string" where
  "hyphenate in_run [] = []"
| "hyphenate in_run (c # cs) =
     (if is_space c \<or> c = CHR ''-''
      then (if in_run then hyphenate True cs else CHR ''-'' # hyphenate True cs)
      else c # hyphenate False cs)"

definition ascii_slugify :: "string \<Rightarrow> string" where
  "ascii_slugify s =
     (let kept = filter (\<lambda>c. is_alnum c \<or> c = CHR ''_'' \<or> is_space c \<or> c = CHR ''-'') s;
          stripped = rev (dropWhile is_space (rev (dropWhile is_space kept)))
      in hyphenate False (map lower_char stripped))"

definition demo_env :: env where
  "demo_env = \<lparr>
     e_file_formats = [''auto'', ''po''],
     e_vcs_registry = [''git''],
     e_projects = [\<lparr>p_slug = ''demo'', p_full_path = ''/data/demo''\<rparr>],
     e_languages = [''cs'', ''de''],
     e_slug_len = 100,
     e_name_len = 100,
     e_re_compile = model_re_compile,
     e_slugify = ascii_slugify,
     e_is_repo_link = prefix ''weblate://'',
     e_get_linked = (\<lambda>sps repo. None),
     e_glob = (\<lambda>pattern.
       if pattern = ''/data/demo/tmp0/**/*.po''
       then [''/data/demo/tmp0/cli/cs.po'', ''/data/demo/tmp0/gui/cs.po'',
             ''/data/demo/tmp0/gui/de.po'', ''/data/demo/tmp0/README.po'']
       else []),
     e_path_separator = (\<lambda>p. p),
     e_mkdtemp = (\<lambda>parent. path_join parent ''tmp0''),
     e_clone_ok = (\<lambda>v r. True),
     e_branch_ok = (\<lambda>b. True),
     e_rename_ok = (\<lambda>src dst. True)\<rparr>"

definition demo_options :: options where
  "demo_options = \<lparr>
     o_name_template = ''%s'',
     o_component_regexp = None,
     o_base_file_template = [],
     o_file_format = ''auto'',
     o_language_regex = None,
     o_duplicates = False,
     o_license = None,
     o_license_url = None,
     o_vcs = ''git'',
     o_push_url = [],
     o_push_url_same = False,
     o_push_on_commit = True,
     o_main_component = None,
     o_project = ''demo'',
     o_repo = ''https://example.org/demo.git'',
     o_branch = ''master'',
     o_filemask = ''**/*.po''\<rparr>"

definition demo_project :: project where
  "demo_project = \<lparr>p_slug = ''demo'', p_full_path = ''/data/demo''\<rparr>"

text \<open>The command object that \<open>parse_options\<close> makes of \<open>demo_options\<close>.\<close>

definition demo_command :: command where
  "demo_command = \<lparr>
     filemask = ''**/*.po'',
     component_re = None,
     file_format = ''auto'',
     language_regex = None,
     license = None,
     license_url = None,
     main_component = None,
     name_template = ''%s'',
     base_file_template = [],
     vcs = ''git'',
     push_url = [],
     push_on_commit = True\<rparr>"

text \<open>A project that already has a component named \<^verbatim>\<open>cli\<close>.\<close>

definition cli_world :: world where
  "cli_world = \<lparr>
     w_subprojects = [\<lparr>
       sp_name = ''cli'', sp_slug = ''cli'', sp_project = ''demo'',
       sp_repo = ''https://example.org/cli.git'', sp_push = None, sp_branch = ''master'',
       sp_template = [], sp_filemask = ''cli/*.po'', sp_file_format = ''po'', sp_vcs = ''git'',
       sp_push_on_commit = True, sp_license = None, sp_license_url = None,
       sp_language_regex = None\<rparr>],
     w_dirs = [''/data/demo/cli''],
     w_log = []\<rparr>"

definition empty_world :: world where
  "empty_world = \<lparr>w_subprojects = [], w_dirs = [], w_log = []\<rparr>"

definition first_submission :: cleaned_data where
  "first_submission = \<lparr>
     cd_match = ''(?P<component>[^/]*)/(?P<language>[^/]*)[.]po'',
     cd_file_format = ''po'',
     cd_name_template = ''{{ component }}'',
     cd_base_file_template = [],
     cd_remove = False,
     cd_confirm = False,
     cd_preview = False,
     cd_show_preview = None\<rparr>"

section \<open>Properties of template formatting\<close>

text \<open>
  C10: \<^verbatim>\<open>format_string\<close> substitutes the match only when the template contains \<^verbatim>\<open>%s\<close>: a
  template without \<^verbatim>\<open>%s\<close> is returned unchanged whatever the match is, so that with such
  a \<^verbatim>\<open>--name-template\<close> any two matches get the identical component name.
\<close>

theorem format_string_without_marker:
  "\<not> py_in ''%s'' template \<Longrightarrow>
     format_string template match = Inr template \<and>
     component_name template name_len match = component_name template name_len match'"
  by (simp add: format_string_def component_name_def)

theorem format_string_without_marker_witness:
  "\<not> py_in ''%s'' ''Fixed name'' \<and>
   format_string ''Fixed name'' ''gui'' = Inr ''Fixed name'' \<and>
   component_name ''Fixed name'' 100 ''gui'' = component_name ''Fixed name'' 100 ''cli'' \<and>
   format_string ''Weblate: %s'' ''gui'' = Inr ''Weblate: gui''"
  using format_string_without_marker [of "''Fixed name''" "''gui''" 100 "''cli''"]
  by (simp add: format_string_def py_percent_def)

section \<open>Properties of the discovery form\<close>

text \<open>
  C8, as the specification states it: a submission with the preview flag unset is marked as
  a preview and does not reach the configuration acceptor. The validation of such a
  submission raises no error, so the handler, which delegates on every successful
  validation, passes it on: at \<open>first_submission\<close> the acceptor has received a
  configuration afterwards.
\<close>

theorem first_submission_reaches_acceptor:
  "\<not> cd_preview first_submission \<and>
   configured (snd (snd (submit \<lparr>configured = []\<rparr> first_submission))) \<noteq>
     configured \<lparr>configured = []\<rparr>"
  by (simp add: first_submission_def submit_def clean_def save_def)

text \<open>
  C8, amended: a submission with the preview flag unset is marked as a preview
  (\<^verbatim>\<open>show_preview\<close> is set to the submitted, false, preview flag, \<^verbatim>\<open>preview\<close> is set to
  true and \<^verbatim>\<open>confirm\<close> to false) and passes the validation, so the handler hands the data
  so marked to the acceptor; a submission with preview set and confirm unset raises the
  validation error and the acceptor is not called; a submission with both set has both
  flags cleared and the acceptor is called.
\<close>

theorem discovery_form_flow:
  "(\<not> cd_preview cd \<longrightarrow>
      clean cd = (None, cd\<lparr>cd_show_preview := Some False, cd_preview := True, cd_confirm := False\<rparr>) \<and>
      submit a cd = (None, snd (clean cd), save a (snd (clean cd)))) \<and>
   (cd_preview cd \<and> \<not> cd_confirm cd \<longrightarrow>
      clean cd = (Some PleaseConfirm, cd\<lparr>cd_show_preview := Some True\<rparr>) \<and>
      submit a cd = (Some PleaseConfirm, snd (clean cd), a)) \<and>
   (cd_preview cd \<and> cd_confirm cd \<longrightarrow>
      clean cd = (None, cd\<lparr>cd_show_preview := Some True, cd_preview := False, cd_confirm := False\<rparr>) \<and>
      submit a cd = (None, snd (clean cd), save a (snd (clean cd))))"
  by (simp add: clean_def submit_def Let_def)

theorem discovery_form_flow_witness:
  "\<not> cd_preview first_submission \<and>
   submit \<lparr>configured = []\<rparr> first_submission =
     (None, first_submission\<lparr>cd_show_preview := Some False, cd_preview := True\<rparr>,
      \<lparr>configured = [first_submission\<lparr>cd_show_preview := Some False, cd_preview := True\<rparr>]\<rparr>) \<and>
   submit \<lparr>configured = []\<rparr> (first_submission\<lparr>cd_preview := True\<rparr>) =
     (Some PleaseConfirm, first_submission\<lparr>cd_preview := True, cd_show_preview := Some True\<rparr>,
      \<lparr>configured = []\<rparr>) \<and>
   submit \<lparr>configured = []\<rparr> (first_submission\<lparr>cd_preview := True, cd_confirm := True\<rparr>) =
     (None, first_submission\<lparr>cd_show_preview := Some True\<rparr>,
      \<lparr>configured = [first_submission\<lparr>cd_show_preview := Some True\<rparr>]\<rparr>)"
  using discovery_form_flow [of first_submission "\<lparr>configured = []\<rparr>"]
    discovery_form_flow [of "first_submission\<lparr>cd_preview := True\<rparr>" "\<lparr>configured = []\<rparr>"]
    discovery_form_flow [of "first_submission\<lparr>cd_preview := True, cd_confirm := True\<rparr>" "\<lparr>configured = []\<rparr>"]
  by (simp add: first_submission_def save_def)

section \<open>Unfolding the operations on concrete inputs\<close>

lemmas demo_defs = demo_env_def demo_options_def empty_world_def demo_project_def demo_command_def
lemmas run_defs = handle_def parse_options_def parse_component_regexp_def import_initial_def
  checkout_tmp_def get_matching_subprojects_def subprojects_of_matches_def get_matching_files_def
  get_name_def match_regexp_def pick_main_def create_component_def find_usable_slug_def
  new_subproject_def create_subproject_def log_event_def repo_link_def path_join_def
  rename_refused_def
  name_or_slug_exists_def format_string_def py_percent_def py_slice_to_def py_strip_def
lemmas rx_defs = mask_regexp_source_def translate_def re_escape_def is_alnum_def is_special_def
  rx_item_then_def quantified_def model_re_compile_def model_regexp_def rx_groupindex_def
lemmas slug_defs = ascii_slugify_def is_space_def lower_char_def

section \<open>Properties of option parsing\<close>

lemma parse_options_mask:
  "\<not> py_in ''**'' (o_filemask opts) \<or> \<not> py_in ''*'' (py_replace ''**'' [] (o_filemask opts))
     \<Longrightarrow> \<exists>e. parse_options en repo opts = Inl e"
  by (auto simp: parse_options_def split: sum.splits)

lemma handle_parse_error:
  "parse_options en (o_repo opts) opts = Inl e \<Longrightarrow> handle en opts w = (Some e, w)"
  by (simp add: handle_def)

text \<open>
  C4, as the specification states it: every file mask that does not contain exactly one
  \<^verbatim>\<open>**\<close> together with a \<^verbatim>\<open>*\<close> outside of it is rejected by option parsing. The
  test of the source asks for the presence of \<^verbatim>\<open>**\<close>, not for a single one: the mask
  \<^verbatim>\<open>**/**/*.po\<close> holds two, option parsing accepts it, and the command goes on to check the
  repository out.
\<close>

theorem two_double_wildcards_accepted:
  "py_count ''**'' ''**/**/*.po'' = 2 \<and>
   (case parse_options demo_env (o_repo demo_options) (demo_options\<lparr>o_filemask := ''**/**/*.po''\<rparr>) of
      Inl e \<Rightarrow> False
    | Inr cmd \<Rightarrow> filemask cmd = ''**/**/*.po'') \<and>
   w_dirs (snd (handle demo_env (demo_options\<lparr>o_filemask := ''**/**/*.po''\<rparr>) empty_world)) =
     [''/data/demo/tmp0'']"
  by (simp add: demo_defs run_defs Let_def)

text \<open>
  C4, amended: every file mask that contains no \<^verbatim>\<open>**\<close>, or no \<^verbatim>\<open>*\<close> once every \<^verbatim>\<open>**\<close>
  is taken out, is rejected by option parsing with a command error, and the command ends
  there with nothing changed: no translation of the mask and no access to the repository
  has taken place. When the other options are valid the error is the one about the double
  wildcard.
\<close>

theorem malformed_mask_rejected:
  "\<not> py_in ''**'' (o_filemask opts) \<or> \<not> py_in ''*'' (py_replace ''**'' [] (o_filemask opts)) \<Longrightarrow>
     (\<exists>e. parse_options en (o_repo opts) opts = Inl e \<and> handle en opts w = (Some e, w)) \<and>
     (parse_component_regexp en (o_component_regexp opts) = Inr cre \<and>
      o_file_format opts \<in> set (e_file_formats en) \<and> o_vcs opts \<in> set (e_vcs_registry en)
        \<longrightarrow> parse_options en (o_repo opts) opts = Inl NeedDoubleWildcard)"
proof -
  assume bad: "\<not> py_in ''**'' (o_filemask opts) \<or> \<not> py_in ''*'' (py_replace ''**'' [] (o_filemask opts))"
  then obtain e where e: "parse_options en (o_repo opts) opts = Inl e"
    using parse_options_mask by blast
  then have "handle en opts w = (Some e, w)"
    by (rule handle_parse_error)
  moreover have "parse_component_regexp en (o_component_regexp opts) = Inr cre \<and>
      o_file_format opts \<in> set (e_file_formats en) \<and> o_vcs opts \<in> set (e_vcs_registry en)
        \<longrightarrow> parse_options en (o_repo opts) opts = Inl NeedDoubleWildcard"
    using bad by (auto simp: parse_options_def)
  ultimately show ?thesis using e by blast
qed

theorem malformed_mask_rejected_witness:
  "\<not> py_in ''**'' ''po/*.po'' \<and>
   handle demo_env (demo_options\<lparr>o_filemask := ''po/*.po''\<rparr>) empty_world =
     (Some NeedDoubleWildcard, empty_world)"
proof -
  let ?o = "demo_options\<lparr>o_filemask := ''po/*.po''\<rparr>"
  have bad: "\<not> py_in ''**'' (o_filemask ?o) \<or> \<not> py_in ''*'' (py_replace ''**'' [] (o_filemask ?o))"
    by simp
  have pre: "parse_component_regexp demo_env (o_component_regexp ?o) = Inr None \<and>
      o_file_format ?o \<in> set (e_file_formats demo_env) \<and> o_vcs ?o \<in> set (e_vcs_registry demo_env)"
    by (simp add: demo_defs parse_component_regexp_def)
  from malformed_mask_rejected [OF bad, of demo_env empty_world None] pre
  have "\<exists>e. parse_options demo_env (o_repo ?o) ?o = Inl e \<and> handle demo_env ?o empty_world = (Some e, empty_world)"
    and "parse_options demo_env (o_repo ?o) ?o = Inl NeedDoubleWildcard"
    by blast+
  then have "handle demo_env ?o empty_world = (Some NeedDoubleWildcard, empty_world)"
    by auto
  then show ?thesis by simp
qed

text \<open>
  C5, as the specification states it: every custom expression given with
  \<^verbatim>\<open>--component-regexp\<close> that lacks one of the named groups is rejected. The source tests
  the option for truth before it compiles it, so the empty expression, which compiles and
  has no group at all, counts as not given: the command runs to the end and creates the
  components from the mask.
\<close>

theorem empty_component_regexp_accepted:
  "(case e_re_compile demo_env True [] of
      Inl msg \<Rightarrow> False
    | Inr rx \<Rightarrow> ''name'' \<notin> set (groupindex rx) \<and> ''language'' \<notin> set (groupindex rx)) \<and>
   fst (handle demo_env (demo_options\<lparr>o_component_regexp := Some []\<rparr>) empty_world) = None \<and>
   map sp_name
     (w_subprojects (snd (handle demo_env (demo_options\<lparr>o_component_regexp := Some []\<rparr>) empty_world))) =
     [''gui'', ''cli'']"
  by (simp add: demo_defs run_defs rx_defs slug_defs Let_def)

text \<open>
  C5, amended: every non-empty custom expression given with \<^verbatim>\<open>--component-regexp\<close> that
  fails to compile or lacks the named group \<^verbatim>\<open>name\<close> or the named group \<^verbatim>\<open>language\<close> makes
  the command end during option parsing with the error that says so, with nothing
  changed: no checkout directory, no log line, no component record.
\<close>

theorem bad_component_regexp_rejected:
  "o_component_regexp opts = Some text \<Longrightarrow> text \<noteq> [] \<Longrightarrow>
   (\<exists>msg. e_re_compile en True text = Inl msg) \<or>
   (\<exists>rx. e_re_compile en True text = Inr rx \<and>
      (''name'' \<notin> set (groupindex rx) \<or> ''language'' \<notin> set (groupindex rx))) \<Longrightarrow>
   (let e = (case e_re_compile en True text of
               Inl msg \<Rightarrow> FailedToCompile text msg
             | Inr rx \<Rightarrow> LacksNamedGroup)
    in parse_options en (o_repo opts) opts = Inl e \<and> handle en opts w = (Some e, w))"
proof -
  assume a: "o_component_regexp opts = Some text" "text \<noteq> []"
    "(\<exists>msg. e_re_compile en True text = Inl msg) \<or>
     (\<exists>rx. e_re_compile en True text = Inr rx \<and>
        (''name'' \<notin> set (groupindex rx) \<or> ''language'' \<notin> set (groupindex rx)))"
  define e where "e = (case e_re_compile en True text of
               Inl msg \<Rightarrow> FailedToCompile text msg
             | Inr rx \<Rightarrow> LacksNamedGroup)"
  from a have "parse_component_regexp en (o_component_regexp opts) = Inl e"
    by (auto simp: parse_component_regexp_def e_def)
  then have "parse_options en (o_repo opts) opts = Inl e"
    by (simp add: parse_options_def)
  then show ?thesis
    using handle_parse_error [of en opts e w] by (simp add: e_def)
qed

theorem bad_component_regexp_rejected_witness:
  "handle demo_env
     (demo_options\<lparr>o_component_regexp := Some (''(?P<name>.*)/.'' @ BSL # ''Z(?ms)'')\<rparr>) empty_world =
     (Some LacksNamedGroup, empty_world)"
proof -
  let ?text = "''(?P<name>.*)/.'' @ BSL # ''Z(?ms)''"
  let ?o = "demo_options\<lparr>o_component_regexp := Some ?text\<rparr>"
  have given: "o_component_regexp ?o = Some ?text" "?text \<noteq> []"
    by simp_all
  have compiled: "e_re_compile demo_env True ?text = Inr (model_regexp [RName, RLit (CHR ''/''), RAny])"
    by (simp add: demo_defs rx_defs)
  have lacks: "(\<exists>msg. e_re_compile demo_env True ?text = Inl msg) \<or>
     (\<exists>rx. e_re_compile demo_env True ?text = Inr rx \<and>
        (''name'' \<notin> set (groupindex rx) \<or> ''language'' \<notin> set (groupindex rx)))"
    unfolding compiled by (simp add: rx_defs)
  from bad_component_regexp_rejected [OF given lacks, of empty_world]
  show ?thesis
    unfolding compiled by simp
qed

section \<open>The temporary checkout\<close>

text \<open>
  C7: on every path that creates the temporary checkout and does not rename it into place,
  the directory is removed before the command ends. The source removes it only where the
  main component exists already; where the mask matches no file, or no matched language is
  known, the command ends with the error and the directory \<^verbatim>\<open>/data/demo/tmp0\<close> is still
  there.
\<close>

theorem temporary_checkout_left_behind:
  "handle demo_env (demo_options\<lparr>o_filemask := ''**/*.xx''\<rparr>) empty_world =
     (Some MaskMatchedNoFiles,
      \<lparr>w_subprojects = [], w_dirs = [''/data/demo/tmp0''],
       w_log = [InfoFoundFiles 0, InfoUpdating, InfoCloning]\<rparr>) \<and>
   handle (demo_env\<lparr>e_languages := [''fr'']\<rparr>) demo_options empty_world =
     (Some NoneOfLanguagesExists,
      \<lparr>w_subprojects = [], w_dirs = [''/data/demo/tmp0''],
       w_log = [InfoFoundLanguages 2, InfoFoundSubprojects 2, WarnSkipping ''README.po'',
                InfoFoundFiles 4, InfoUpdating, InfoCloning]\<rparr>)"
  by (simp add: demo_defs run_defs rx_defs slug_defs Let_def)

section \<open>Duplicate component names\<close>

lemma probe_names_find:
  "probe_names en sps proj base is =
     map_option (\<lambda>i. (numbered_name base i, e_slugify en (numbered_name base i)))
       (find (candidate_free en sps proj base) is)"
  by (induction "is") (simp_all add: candidate_free_def Let_def)

lemma find_first_in_range:
  "a \<le> i \<Longrightarrow> i < n \<Longrightarrow> P i \<Longrightarrow> (\<forall>j. a \<le> j \<and> j < i \<longrightarrow> \<not> P j) \<Longrightarrow> find P [a..<n] = Some i"
proof (induction "i - a" arbitrary: a)
  case 0
  then have "a = i" by simp
  with 0 show ?case by (simp add: upt_conv_Cons)
next
  case (Suc k)
  then have lt: "a < i" and np: "\<not> P a" by auto
  from Suc.hyps(1) [of "Suc a"] Suc.hyps(2) Suc.prems lt
  have "find P [Suc a..<n] = Some i" by auto
  with lt Suc.prems(2) np show ?case by (simp add: upt_conv_Cons)
qed

lemma find_none_in_range:
  "(\<forall>i. a \<le> i \<and> i < n \<longrightarrow> \<not> P i) \<Longrightarrow> find P [a..<n] = None"
  by (auto simp: find_None_iff)

lemma decimal_one: "n < 10 \<Longrightarrow> decimal n = [digit_char n]"
  by (subst decimal.simps) simp

lemma decimal_two:
  assumes "10 \<le> n" "n < 100"
  shows "decimal n = [digit_char (n div 10), digit_char (n mod 10)]"
proof -
  from assms have "n div 10 < 10" by simp
  with assms(1) show ?thesis
    by (subst decimal.simps) (simp add: decimal_one)
qed

lemma decimal_three:
  assumes "100 \<le> n" "n < 1000"
  shows "decimal n = [digit_char (n div 100), digit_char (n div 10 mod 10), digit_char (n mod 10)]"
proof -
  from assms have r: "10 \<le> n div 10" "n div 10 < 100" by simp_all
  have d: "n div 10 div 10 = n div 100" by (simp add: div_mult2_eq [symmetric])
  from assms(1) have "\<not> n < 10" by simp
  then show ?thesis
    by (subst decimal.simps) (simp add: decimal_two [OF r] d)
qed

lemma numbered_name_three_digits:
  assumes "i < 1000"
  shows "numbered_name base i =
     base @ '' '' @ [digit_char (i div 100), digit_char (i div 10 mod 10), digit_char (i mod 10)]"
proof -
  consider "i < 10" | "10 \<le> i" "i < 100" | "100 \<le> i"
    by linarith
  then show ?thesis
  proof cases
    case 1
    then show ?thesis
      by (simp add: numbered_name_def decimal_one numeral_2_eq_2 digit_char_def)
  next
    case 2
    then show ?thesis
      by (simp add: numbered_name_def decimal_two digit_char_def)
  next
    case 3
    then show ?thesis
      using assms by (simp add: numbered_name_def decimal_three)
  qed
qed

lemma find_usable_slug_first:
  assumes "1 \<le> i" "i < 1000"
    and "candidate_free en sps proj (py_slice_to (slug_len - 4) name) i"
    and "\<forall>j. 1 \<le> j \<and> j < i \<longrightarrow> \<not> candidate_free en sps proj (py_slice_to (slug_len - 4) name) j"
  shows "find_usable_slug en sps name slug_len proj =
     Inr (numbered_name (py_slice_to (slug_len - 4) name) i,
          e_slugify en (numbered_name (py_slice_to (slug_len - 4) name) i))"
  using find_first_in_range [of 1 i 1000 "candidate_free en sps proj (py_slice_to (slug_len - 4) name)"] assms
  by (simp add: find_usable_slug_def probe_names_find)

lemma find_usable_slug_exhausted:
  assumes "\<forall>i. 1 \<le> i \<and> i < 1000 \<longrightarrow> \<not> candidate_free en sps proj (py_slice_to (slug_len - 4) name) i"
  shows "find_usable_slug en sps name slug_len proj = Inl (NoSuitableName name)"
  using find_none_in_range [of 1 1000 "candidate_free en sps proj (py_slice_to (slug_len - 4) name)"] assms
  by (simp add: find_usable_slug_def probe_names_find)

text \<open>
  C6: in the loop that creates the components sharing the repository, a component whose
  name or slug is already taken in the project is skipped with a warning, and no record is
  created, when duplicates are skipped (the default); otherwise the names
  \<^verbatim>\<open><base> NNN\<close> are probed for NNN from 001 upwards, the first number whose name and slug
  are both free is the one used, and when all of 001 to 999 are taken the command ends
  with the error that no suitable name was found.
\<close>

theorem duplicate_component_handling:
  assumes "format_string (name_template cmd) match = Inr formatted"
    and "format_string (base_file_template cmd) match = Inr template"
    and "name = py_slice_to (e_name_len en) formatted"
    and "slug = py_slice_to (e_slug_len en) (e_slugify en name)"
    and "base = py_slice_to (e_slug_len en - 4) name"
    and "name_or_slug_exists (w_subprojects w) (p_slug proj) name slug"
  shows "(\<not> duplicates \<longrightarrow>
            create_component en cmd duplicates proj sharedrepo branch match w =
              (None, w\<lparr>w_log := WarnExistsSkipping name # w_log w\<rparr>)) \<and>
         (duplicates \<longrightarrow>
            (\<forall>i. 1 \<le> i \<and> i < 1000 \<and> candidate_free en (w_subprojects w) (p_slug proj) base i \<and>
                 (\<forall>j. 1 \<le> j \<and> j < i \<longrightarrow> \<not> candidate_free en (w_subprojects w) (p_slug proj) base j) \<longrightarrow>
               numbered_name base i =
                 base @ '' '' @ [digit_char (i div 100), digit_char (i div 10 mod 10), digit_char (i mod 10)] \<and>
               create_component en cmd duplicates proj sharedrepo branch match w =
                 (None, w\<lparr>w_subprojects := w_subprojects w @
                            [new_subproject cmd (numbered_name base i) (e_slugify en (numbered_name base i))
                               (p_slug proj) sharedrepo None branch template match],
                          w_log := InfoCreating (numbered_name base i) # w_log w\<rparr>)) \<and>
            ((\<forall>i. 1 \<le> i \<and> i < 1000 \<longrightarrow> \<not> candidate_free en (w_subprojects w) (p_slug proj) base i) \<longrightarrow>
               create_component en cmd duplicates proj sharedrepo branch match w =
                 (Some (NoSuitableName name), w)))"
proof (intro conjI impI allI)
  assume "\<not> duplicates"
  with assms show "create_component en cmd duplicates proj sharedrepo branch match w =
              (None, w\<lparr>w_log := WarnExistsSkipping name # w_log w\<rparr>)"
    by (simp add: create_component_def log_event_def Let_def)
next
  fix i
  assume "duplicates" and i: "1 \<le> i \<and> i < 1000 \<and> candidate_free en (w_subprojects w) (p_slug proj) base i \<and>
                 (\<forall>j. 1 \<le> j \<and> j < i \<longrightarrow> \<not> candidate_free en (w_subprojects w) (p_slug proj) base j)"
  from i show "numbered_name base i =
      base @ '' '' @ [digit_char (i div 100), digit_char (i div 10 mod 10), digit_char (i mod 10)]"
    by (simp add: numbered_name_three_digits)
  from i assms(5) have "find_usable_slug en (w_subprojects w) name (e_slug_len en) (p_slug proj) =
      Inr (numbered_name base i, e_slugify en (numbered_name base i))"
    using find_usable_slug_first [of i en "w_subprojects w" "p_slug proj" "e_slug_len en" name] by simp
  with assms \<open>duplicates\<close>
  show "create_component en cmd duplicates proj sharedrepo branch match w =
                 (None, w\<lparr>w_subprojects := w_subprojects w @
                            [new_subproject cmd (numbered_name base i) (e_slugify en (numbered_name base i))
                               (p_slug proj) sharedrepo None branch template match],
                          w_log := InfoCreating (numbered_name base i) # w_log w\<rparr>)"
    by (simp add: create_component_def log_event_def create_subproject_def Let_def)
next
  assume "duplicates"
    and ex: "\<forall>i. 1 \<le> i \<and> i < 1000 \<longrightarrow> \<not> candidate_free en (w_subprojects w) (p_slug proj) base i"
  from ex assms(5) have "find_usable_slug en (w_subprojects w) name (e_slug_len en) (p_slug proj) =
      Inl (NoSuitableName name)"
    using find_usable_slug_exhausted [of en "w_subprojects w" "p_slug proj" "e_slug_len en" name] by simp
  with assms \<open>duplicates\<close>
  show "create_component en cmd duplicates proj sharedrepo branch match w = (Some (NoSuitableName name), w)"
    by (simp add: create_component_def Let_def)
qed

theorem duplicate_component_handling_witness:
  "create_component demo_env demo_command False demo_project ''weblate://demo/gui'' ''master''
     ''cli'' cli_world = (None, cli_world\<lparr>w_log := [WarnExistsSkipping ''cli'']\<rparr>) \<and>
   create_component demo_env demo_command True demo_project ''weblate://demo/gui'' ''master''
     ''cli'' cli_world =
     (None, cli_world\<lparr>w_subprojects := w_subprojects cli_world @
              [new_subproject demo_command ''cli 001'' ''cli-001'' ''demo'' ''weblate://demo/gui''
                 None ''master'' [] ''cli''],
            w_log := [InfoCreating ''cli 001'']\<rparr>) \<and>
   create_component (demo_env\<lparr>e_slugify := (\<lambda>s. ''cli'')\<rparr>) demo_command True demo_project
     ''weblate://demo/gui'' ''master'' ''cli'' cli_world = (Some (NoSuitableName ''cli''), cli_world)"
proof -
  have fmt: "format_string (name_template demo_command) ''cli'' = Inr ''cli''"
      "format_string (base_file_template demo_command) ''cli'' = Inr []"
    by (simp_all add: demo_defs format_string_def py_percent_def)
  have nm: "''cli'' = py_slice_to (e_name_len demo_env) ''cli''"
      "''cli'' = py_slice_to (e_slug_len demo_env) (e_slugify demo_env ''cli'')"
      "''cli'' = py_slice_to (e_slug_len demo_env - 4) ''cli''"
    by (simp_all add: demo_defs py_slice_to_def slug_defs is_alnum_def)
  have ex: "name_or_slug_exists (w_subprojects cli_world) (p_slug demo_project) ''cli'' ''cli''"
    by (simp add: name_or_slug_exists_def cli_world_def demo_defs)
  have n1: "numbered_name ''cli'' 1 = ''cli 001''"
    by (simp add: numbered_name_def decimal.simps digit_char_def numeral_2_eq_2)
  have s1: "e_slugify demo_env ''cli 001'' = ''cli-001''"
    by (simp add: demo_defs slug_defs is_alnum_def)
  have free1: "candidate_free demo_env (w_subprojects cli_world) (p_slug demo_project) ''cli'' 1"
    unfolding candidate_free_def n1 s1
    by (simp add: name_or_slug_exists_def cli_world_def demo_defs)
  note inst = duplicate_component_handling [OF fmt nm ex, where sharedrepo = "''weblate://demo/gui''" and branch = "''master''"]
  from inst [where duplicates = False]
  have a: "create_component demo_env demo_command False demo_project ''weblate://demo/gui'' ''master''
     ''cli'' cli_world = (None, cli_world\<lparr>w_log := [WarnExistsSkipping ''cli'']\<rparr>)"
    by (simp add: cli_world_def)
  from inst [where duplicates = True] free1
  have b: "create_component demo_env demo_command True demo_project ''weblate://demo/gui'' ''master''
     ''cli'' cli_world =
     (None, cli_world\<lparr>w_subprojects := w_subprojects cli_world @
              [new_subproject demo_command (numbered_name ''cli'' 1) (e_slugify demo_env (numbered_name ''cli'' 1))
                 (p_slug demo_project) ''weblate://demo/gui'' None ''master'' [] ''cli''],
            w_log := InfoCreating (numbered_name ''cli'' 1) # w_log cli_world\<rparr>)"
    by auto
  let ?en = "demo_env\<lparr>e_slugify := (\<lambda>s. ''cli'')\<rparr>"
  have nm': "''cli'' = py_slice_to (e_name_len ?en) ''cli''"
      "''cli'' = py_slice_to (e_slug_len ?en) (e_slugify ?en ''cli'')"
      "''cli'' = py_slice_to (e_slug_len ?en - 4) ''cli''"
    by (simp_all add: demo_defs py_slice_to_def)
  have taken: "\<forall>i. 1 \<le> i \<and> i < 1000 \<longrightarrow>
      \<not> candidate_free ?en (w_subprojects cli_world) (p_slug demo_project) ''cli'' i"
    by (simp add: candidate_free_def name_or_slug_exists_def cli_world_def demo_defs)
  from duplicate_component_handling [OF fmt nm' ex, where duplicates = True and sharedrepo = "''weblate://demo/gui''" and branch = "''master''"] taken
  have c: "create_component ?en demo_command True demo_project
     ''weblate://demo/gui'' ''master'' ''cli'' cli_world = (Some (NoSuitableName ''cli''), cli_world)"
    by blast
  from a b [unfolded n1 s1] c show ?thesis
    by (simp add: demo_project_def cli_world_def)
qed

section \<open>Files that the expression does not match\<close>

lemma get_name_nonmatching:
  "match_regexp en cmd = Inr rx \<Longrightarrow> rmatch rx path = None \<Longrightarrow>
     get_name en cmd path w = (Inr (None, None), log_event (WarnSkipping path) w)"
  by (simp add: get_name_def)

lemma get_name_result_any_world:
  "fst (get_name en cmd path w) = fst (get_name en cmd path w')"
  by (auto simp: get_name_def split: sum.splits option.splits)

lemma scan_matches_result_any_world:
  "fst (scan_matches en cmd ms names langs w) = fst (scan_matches en cmd ms names langs w')"
proof (induction ms arbitrary: names langs w w')
  case Nil
  show ?case by simp
next
  case (Cons m ms)
  obtain r v where g: "get_name en cmd m w = (r, v)" by (cases "get_name en cmd m w")
  obtain r' v' where g': "get_name en cmd m w' = (r', v')" by (cases "get_name en cmd m w'")
  from g g' get_name_result_any_world [of en cmd m w w'] have "r' = r" by simp
  with g g' show ?case
    using Cons.IH by (auto split: sum.splits option.splits prod.splits)
qed

lemma scan_matches_skip:
  assumes "match_regexp en cmd = Inr rx" "rmatch rx path = None"
  shows "fst (scan_matches en cmd (pre @ path # post) names langs w) =
         fst (scan_matches en cmd (pre @ post) names langs w)"
proof (induction pre arbitrary: names langs w)
  case Nil
  show ?case
    using scan_matches_result_any_world [of en cmd post names langs "log_event (WarnSkipping path) w" w]
    by (simp add: get_name_nonmatching [OF assms])
next
  case (Cons m pre)
  show ?case
    using Cons.IH by (auto split: sum.splits option.splits prod.splits)
qed

lemma scan_matches_warns:
  assumes "match_regexp en cmd = Inr rx" "rmatch rx path = None"
  shows "scan_matches en cmd ms names langs w = (Inr r, w') \<Longrightarrow>
         WarnSkipping path \<in> set (w_log w) \<or> path \<in> set ms \<Longrightarrow> WarnSkipping path \<in> set (w_log w')"
proof (induction ms arbitrary: names langs w)
  case Nil
  then show ?case by simp
next
  case (Cons m ms)
  obtain g v where g: "get_name en cmd m w = (g, v)" by (cases "get_name en cmd m w")
  have keep: "WarnSkipping path \<in> set (w_log w) \<Longrightarrow> WarnSkipping path \<in> set (w_log v)"
    using g by (auto simp: get_name_def log_event_def split: sum.splits option.splits if_splits)
  have here: "m = path \<Longrightarrow> WarnSkipping path \<in> set (w_log v)"
    using g assms by (auto simp: get_name_nonmatching log_event_def)
  from Cons.prems(2) keep here have "WarnSkipping path \<in> set (w_log v) \<or> path \<in> set ms"
    by auto
  with Cons.prems(1) g show ?case
    using Cons.IH by (auto split: sum.splits option.splits prod.splits if_splits)
qed

text \<open>
  C9: a file that the glob lists and the component expression (the custom one or the one
  made from the mask) does not match is skipped with a warning: it gives no name and no
  language, the names and languages collected are those of the other files, and with it
  in the list the scan still ends with the sorted names as soon as one of the languages
  found is a known one (the list is not empty, since the file itself is in it).
\<close>

theorem nonmatching_file_skipped:
  assumes "match_regexp en cmd = Inr rx" and "rmatch rx path = None"
  shows "get_name en cmd path w = (Inr (None, None), w\<lparr>w_log := WarnSkipping path # w_log w\<rparr>) \<and>
     fst (scan_matches en cmd (pre @ path # post) names langs w) =
       fst (scan_matches en cmd (pre @ post) names langs w) \<and>
     (\<forall>found tongues. fst (scan_matches en cmd (pre @ post) [] [] w) = Inr (found, tongues) \<and>
        (\<exists>code \<in> set (e_languages en). Some code \<in> set tongues) \<longrightarrow>
          fst (subprojects_of_matches en cmd (pre @ path # post) w) = Inr (sort found) \<and>
          WarnSkipping path \<in> set (w_log (snd (subprojects_of_matches en cmd (pre @ path # post) w))))"
proof (intro conjI allI impI)
  show "get_name en cmd path w = (Inr (None, None), w\<lparr>w_log := WarnSkipping path # w_log w\<rparr>)"
    using get_name_nonmatching [OF assms] by (simp add: log_event_def)
  show "fst (scan_matches en cmd (pre @ path # post) names langs w) =
       fst (scan_matches en cmd (pre @ post) names langs w)"
    by (rule scan_matches_skip [OF assms])
next
  fix found tongues
  assume a: "fst (scan_matches en cmd (pre @ post) [] [] w) = Inr (found, tongues) \<and>
        (\<exists>code \<in> set (e_languages en). Some code \<in> set tongues)"
  let ?w1 = "log_event (InfoFoundFiles (length (pre @ path # post))) w"
  have "fst (scan_matches en cmd (pre @ path # post) [] [] ?w1) = Inr (found, tongues)"
    using a scan_matches_skip [OF assms, of pre post "[]" "[]" ?w1]
      scan_matches_result_any_world [of en cmd "pre @ post" "[]" "[]" ?w1 w]
    by simp
  then obtain w2 where s: "scan_matches en cmd (pre @ path # post) [] [] ?w1 = (Inr (found, tongues), w2)"
    by (cases "scan_matches en cmd (pre @ path # post) [] [] ?w1") auto
  from a have known: "filter (\<lambda>code. Some code \<in> set tongues) (e_languages en) \<noteq> []"
    by (auto simp: filter_empty_conv)
  from scan_matches_warns [OF assms s] have warned: "WarnSkipping path \<in> set (w_log w2)"
    by simp
  from s known show "fst (subprojects_of_matches en cmd (pre @ path # post) w) = Inr (sort found)"
    by (simp add: subprojects_of_matches_def Let_def)
  from s known warned
  show "WarnSkipping path \<in> set (w_log (snd (subprojects_of_matches en cmd (pre @ path # post) w)))"
    by (simp add: subprojects_of_matches_def Let_def log_event_def)
qed

theorem nonmatching_file_skipped_witness:
  "get_name demo_env demo_command ''README.po'' empty_world =
     (Inr (None, None), empty_world\<lparr>w_log := [WarnSkipping ''README.po'']\<rparr>) \<and>
   fst (subprojects_of_matches demo_env demo_command
          [''cli/cs.po'', ''gui/cs.po'', ''gui/de.po'', ''README.po''] empty_world) =
     Inr [''cli'', ''gui'']"
proof -
  let ?rx = "model_regexp [RName, RLit (CHR ''/''), RLang, RLit (CHR ''.''), RLit (CHR ''p''), RLit (CHR ''o'')]"
  have rx: "match_regexp demo_env demo_command = Inr ?rx"
    by (simp add: match_regexp_def demo_defs rx_defs)
  have nomatch: "rmatch ?rx ''README.po'' = None"
    by (simp add: model_regexp_def)
  have scan: "fst (scan_matches demo_env demo_command ([''cli/cs.po'', ''gui/cs.po'', ''gui/de.po''] @ [])
                [] [] empty_world) = Inr ([''gui'', ''cli''], [Some ''de'', Some ''cs''])"
    by (simp add: get_name_def rx model_regexp_def rx_groupindex_def)
  have known: "\<exists>code \<in> set (e_languages demo_env). Some code \<in> set [Some ''de'', Some ''cs'']"
    by (simp add: demo_defs)
  from nonmatching_file_skipped [OF rx nomatch, of empty_world "[''cli/cs.po'', ''gui/cs.po'', ''gui/de.po'']" "[]"]
    scan known
  have "get_name demo_env demo_command ''README.po'' empty_world =
      (Inr (None, None), empty_world\<lparr>w_log := WarnSkipping ''README.po'' # w_log empty_world\<rparr>)"
    and "fst (subprojects_of_matches demo_env demo_command
          ([''cli/cs.po'', ''gui/cs.po'', ''gui/de.po''] @ [''README.po'']) empty_world) =
     Inr (sort [''gui'', ''cli''])"
    by blast+
  then show ?thesis
    by (simp add: empty_world_def)
qed

section \<open>The main component\<close>







section \<open>Properties of the pattern translator\<close>

subsection \<open>The replacements, item by item\<close>


lemma mask_items_star:
  "d \<noteq> CHR ''*'' \<Longrightarrow>
     mask_items seen (CHR ''*'' # d # cs) = (if seen then RLangRef else RLang) # mask_items True (d # cs)"
  by (simp add: mask_single_def)

lemma mask_items_other:
  "c \<noteq> CHR ''*'' \<Longrightarrow>
     mask_items seen (c # d # cs) = (if c = CHR ''?'' then RAny else RLit c) # mask_items seen (d # cs)"
  by (simp add: mask_single_def)

lemma mask_induct [case_names Nil One Double Star Other]:
  assumes "\<And>seen. P seen []"
    and "\<And>seen c. P seen [c]"
    and "\<And>seen cs. P seen cs \<Longrightarrow> P seen (CHR ''*'' # CHR ''*'' # cs)"
    and "\<And>seen d cs. d \<noteq> CHR ''*'' \<Longrightarrow> P True (d # cs) \<Longrightarrow> P seen (CHR ''*'' # d # cs)"
    and "\<And>seen c d cs. c \<noteq> CHR ''*'' \<Longrightarrow> P seen (d # cs) \<Longrightarrow> P seen (c # d # cs)"
  shows "P seen pat"
proof (induction seen pat rule: mask_items.induct)
  case (1 seen)
  show ?case by (rule assms(1))
next
  case (2 seen c)
  show ?case by (rule assms(2))
next
  case (3 seen c d cs)
  consider "c = CHR ''*''" "d = CHR ''*''" | "c = CHR ''*''" "d \<noteq> CHR ''*''" | "c \<noteq> CHR ''*''"
    by blast
  then show ?case
  proof cases
    case 1
    with 3(1) show ?thesis by (simp add: assms(3))
  next
    case 2
    with 3(2) have "P True (d # cs)" by simp
    with 2 show ?thesis by (simp add: assms(4))
  next
    case 3
    with "3.IH"(2) have "P seen (d # cs)" by simp
    with 3 show ?thesis by (simp add: assms(5))
  qed
qed









lemma head_ok_Cons [simp]:
  "head_ok (h # t) \<longleftrightarrow> h = CHR ''('' \<or> h = CHR ''.'' \<or> h = BSL \<or> is_alnum h"
  by (simp add: head_ok_def)

lemma head_ok_Nil [simp]: "\<not> head_ok []"
  by (simp add: head_ok_def)
























subsection \<open>Reading the expression back\<close>







subsection \<open>The matcher finds a decomposition when there is one\<close>








subsection \<open>From the mask to the name and the language\<close>





lemma fits_mask_items_flag:
  "fits (mask_items seen pat) n l s = fits (mask_items seen' pat) n l s"
proof (induction seen pat arbitrary: s seen' rule: mask_induct)
  case (Nil seen)
  show ?case by simp
next
  case (One seen c)
  show ?case by (simp add: mask_single_def)
next
  case (Double seen cs)
  from Double [of _ seen'] show ?case by simp
next
  case (Star seen d cs)
  from Star(1) show ?case by (simp add: mask_items_star del: mask_items.simps)
next
  case (Other seen c d cs)
  from Other(1) Other(2) [of _ seen'] show ?case
    by (simp add: mask_items_other del: mask_items.simps split: list.splits)
qed










end
